theory Spec2Isabelle
  imports Main
begin

section \<open>Data model\<close>

text \<open>
  The vehicle lifecycle handlers of \<^verbatim>\<open>src/routes/vehicles-route.ts\<close>, embedded as
  functions over an explicit database state. A table is the list of its rows, in the
  order a \<^verbatim>\<open>select\<close> yields them, so that \<^verbatim>\<open>res[0]\<close> and \<^verbatim>\<open>existing.find\<close> mean
  the first row.
\<close>

type_synonym timestamp = nat

text \<open>
  The session's user, as the handlers read it: \<^verbatim>\<open>user.id\<close> and \<^verbatim>\<open>user.role\<close>. The
  role is a string, compared with \<^verbatim>\<open>"user"\<close> and \<^verbatim>\<open>"admin"\<close>.
\<close>

record user =
  user_id :: string
  role :: string

text \<open>
  Modelled from the spec: the declaration of the vehicles table (vehicles-schema) is
  not among the sources. A row has the columns the handlers read and the spec names
  (integer id, UUID, VIN, owner reference, nullable \<^verbatim>\<open>deletedAt\<close>, the two timestamps);
  every other column is carried in \<open>attrs\<close>.
\<close>

record 'a vehicle =
  vehicle_id :: int
  uuid :: string
  vin :: string
  ownerId :: string
  deletedAt :: "timestamp option"
  createdAt :: timestamp
  updatedAt :: timestamp
  attrs :: 'a

text \<open>
  Modelled from the spec: the ownership-transfers table is not among the sources. A
  record holds \<^verbatim>\<open>(vehicleId or vin, fromUserId, toUserId, transferredAt)\<close>.
\<close>

record ownership_transfer =
  vehicleId :: "int option"
  transfer_vin :: "string option"
  fromUserId :: string
  toUserId :: string
  transferredAt :: timestamp

record 'a database =
  vehiclesTable :: "'a vehicle list"
  ownershipTransfersTable :: "ownership_transfer list"

text \<open>
  The argument of \<^verbatim>\<open>.set(...)\<close>: each column is either absent (\<open>None\<close>) or given a
  value. \<^verbatim>\<open>deletedAt\<close> is nullable, so a given value may itself be \<^verbatim>\<open>null\<close>. The
  effect on the remaining columns is a function on \<open>attrs\<close>.
\<close>

record 'a vehicle_update =
  set_uuid :: "string option"
  set_vin :: "string option"
  set_ownerId :: "string option"
  set_deletedAt :: "timestamp option option"
  set_createdAt :: "timestamp option"
  set_updatedAt :: "timestamp option"
  set_attrs :: "'a \<Rightarrow> 'a"

text \<open>
  The validated body of \<^verbatim>\<open>PATCH\<close>: the update shape without \<^verbatim>\<open>uuid\<close>,
  \<^verbatim>\<open>createdAt\<close> and \<^verbatim>\<open>updatedAt\<close>, every field optional. \<open>body_attrs\<close> is
  \<open>None\<close> when the body names none of the remaining columns.
\<close>

record 'a vehicle_body =
  body_vin :: "string option"
  body_ownerId :: "string option"
  body_deletedAt :: "timestamp option option"
  body_attrs :: "('a \<Rightarrow> 'a) option"

text \<open>
  Modelled from the spec: the validated body of \<^verbatim>\<open>POST\<close> (zVehicleInsertSchema is
  not among the sources) is a vehicle payload including the VIN.
\<close>

record 'a vehicle_insert =
  insert_vin :: string
  insert_attrs :: 'a

text \<open>
  What a request reads from outside the tables: \<open>date1\<close> and \<open>date2\<close> are the first and
  the second value of \<^verbatim>\<open>new Date()\<close> while the handler runs; \<open>db_now\<close> is the
  time the database gives the timestamps of an inserted row.
\<close>

record env =
  date1 :: timestamp
  date2 :: timestamp
  db_now :: timestamp

text \<open>
  What a handler can throw and does not catch: the datastore refusing a second row with
  a VIN, \<^verbatim>\<open>.set\<close> called with no column, and reading a property of \<^verbatim>\<open>undefined\<close>.
\<close>

datatype failure = UniqueViolation | NoValuesToSet | UndefinedRead

datatype 'a body =
  ErrorBody string
  | VehiclesBody "'a vehicle list"
  | VehicleBody "'a vehicle"
  | RestoredBody "'a vehicle"
  | CreatedBody "'a vehicle"
  | DeletedBody string string
  | FailureBody failure

type_synonym 'a response = "nat \<times> 'a body"

section \<open>Database statements\<close>

text \<open>
  Modelled from the spec: the datastore is consumed through typed select, insert and
  update statements, and the VIN is unique across all vehicles, soft-deleted ones
  included. A statement acts on the table as it is written, and the datastore refuses a
  statement that would give two rows the same VIN.
\<close>

definition selectWhere :: "('a vehicle \<Rightarrow> bool) \<Rightarrow> 'a database \<Rightarrow> 'a vehicle list" where
  "selectWhere p db = filter p (vehiclesTable db)"

definition applyUpdate :: "'a vehicle_update \<Rightarrow> 'a vehicle \<Rightarrow> 'a vehicle" where
  "applyUpdate s v =
     v\<lparr>uuid := (case set_uuid s of None \<Rightarrow> uuid v | Some x \<Rightarrow> x),
       vin := (case set_vin s of None \<Rightarrow> vin v | Some x \<Rightarrow> x),
       ownerId := (case set_ownerId s of None \<Rightarrow> ownerId v | Some x \<Rightarrow> x),
       deletedAt := (case set_deletedAt s of None \<Rightarrow> deletedAt v | Some x \<Rightarrow> x),
       createdAt := (case set_createdAt s of None \<Rightarrow> createdAt v | Some x \<Rightarrow> x),
       updatedAt := (case set_updatedAt s of None \<Rightarrow> updatedAt v | Some x \<Rightarrow> x),
       attrs := set_attrs s (attrs v)\<rparr>"

text \<open>
  \<^verbatim>\<open>db.update(vehiclesTable).set(s).where(p).returning()\<close>: the rows satisfying \<open>p\<close> are
  rewritten; the statement returns them as rewritten. Without \<^verbatim>\<open>.where\<close> the predicate
  is true of every row.
\<close>

definition updateWhere ::
  "('a vehicle \<Rightarrow> bool) \<Rightarrow> 'a vehicle_update \<Rightarrow> 'a database \<Rightarrow> 'a vehicle list \<times> 'a database" where
  "updateWhere p s db =
     (map (applyUpdate s) (filter p (vehiclesTable db)),
      db\<lparr>vehiclesTable := map (\<lambda>r. if p r then applyUpdate s r else r) (vehiclesTable db)\<rparr>)"

text \<open>
  Modelled from the spec: the column defaults of the vehicles table are not among the
  sources. The spec identifies a vehicle by a UUID and an integer id and gives a new
  vehicle a fresh UUID; the sibling tables among the sources declare these columns as
  \<^verbatim>\<open>uuid("uuid").defaultRandom()\<close> and
  \<^verbatim>\<open>integer("id").primaryKey().generatedAlwaysAsIdentity()\<close>. The model of each
  default yields a value that no row of the table carries; which value it is does not
  matter.
\<close>

definition defaultRandom :: "'a vehicle list \<Rightarrow> string" where
  "defaultRandom rows =
     replicate (Suc (foldr (\<lambda>r n. max (length (uuid r)) n) rows 0)) (CHR ''0'')"

definition generatedAlwaysAsIdentity :: "'a vehicle list \<Rightarrow> int" where
  "generatedAlwaysAsIdentity rows = foldr (\<lambda>r n. max (vehicle_id r) n) rows 0 + 1"

text \<open>
  Modelled from the spec: \<^verbatim>\<open>db.insert(vehiclesTable).values(...).returning()\<close>. The
  VIN is unique, so the insert of a VIN that a row of the table carries, soft-deleted or
  not, is refused and the table stays as it was. Otherwise the row is appended with its
  id, its UUID and its two timestamps from the database, not soft-deleted, and the
  statement returns it.
\<close>

definition insertVehicle ::
  "env \<Rightarrow> 'a vehicle_insert \<Rightarrow> string \<Rightarrow> 'a database
     \<Rightarrow> failure + 'a vehicle list \<times> 'a database" where
  "insertVehicle e p owner db =
     (if insert_vin p \<in> set (map vin (vehiclesTable db)) then Inl UniqueViolation
      else
        (let row = \<lparr>vehicle_id = generatedAlwaysAsIdentity (vehiclesTable db),
                    uuid = defaultRandom (vehiclesTable db), vin = insert_vin p,
                    ownerId = owner, deletedAt = None, createdAt = db_now e,
                    updatedAt = db_now e, attrs = insert_attrs p\<rparr>
         in Inr ([row], db\<lparr>vehiclesTable := vehiclesTable db @ [row]\<rparr>)))"

definition insertOwnershipTransfer :: "ownership_transfer \<Rightarrow> 'a database \<Rightarrow> 'a database" where
  "insertOwnershipTransfer t db =
     db\<lparr>ownershipTransfersTable := ownershipTransfersTable db @ [t]\<rparr>"

text \<open>\<^verbatim>\<open>.then(res => res[0])\<close>: the first row, or \<^verbatim>\<open>undefined\<close>.\<close>

definition first :: "'b list \<Rightarrow> 'b option" where
  "first res = (case res of [] \<Rightarrow> None | r # _ \<Rightarrow> Some r)"

section \<open>Responses\<close>

definition unauthorized :: "'a response" where
  "unauthorized = (401, ErrorBody ''Unauthorized'')"

definition vehicleNotFound :: "'a response" where
  "vehicleNotFound = (404, ErrorBody ''Vehicle not found'')"

definition forbidden :: "'a response" where
  "forbidden = (403, ErrorBody ''Only admins can transfer ownership'')"

text \<open>
  Modelled from the spec: the error handler of the application is not among the sources.
  What a handler throws is not caught and the request fails as a generic failure, a
  5xx response; the body here names what was thrown.
\<close>

definition uncaught :: "failure \<Rightarrow> 'a response" where
  "uncaught f = (500, FailureBody f)"

section \<open>Handlers\<close>

subsection \<open>GET /vehicles\<close>

definition listVehicles :: "'a database \<Rightarrow> user option \<Rightarrow> 'a response" where
  "listVehicles db usr =
     (case usr of
        None \<Rightarrow> unauthorized
      | Some u \<Rightarrow>
          (200, VehiclesBody
             (selectWhere
                (\<lambda>v. (if role u = ''user'' then ownerId v = user_id u else True)
                      \<and> deletedAt v = None)
                db)))"

subsection \<open>POST /vehicles\<close>

text \<open>Lines 129 to 167: the branch taken when a soft-deleted row with the VIN was found.\<close>

definition reactivate ::
  "env \<Rightarrow> 'a database \<Rightarrow> user \<Rightarrow> 'a vehicle \<Rightarrow> 'a response \<times> 'a database" where
  "reactivate e db u deletedVehicle =
     (let transfer = (ownerId deletedVehicle \<noteq> user_id u);
          db1 = (if transfer
                 then insertOwnershipTransfer
                        \<lparr>vehicleId = Some (vehicle_id deletedVehicle), transfer_vin = None,
                         fromUserId = ownerId deletedVehicle, toUserId = user_id u,
                         transferredAt = date1 e\<rparr> db
                 else db);
          updatedVehicle =
            \<lparr>set_uuid = Some (uuid deletedVehicle), set_vin = Some (vin deletedVehicle),
             set_ownerId = Some (user_id u), set_deletedAt = Some None,
             set_createdAt = Some (createdAt deletedVehicle),
             set_updatedAt = Some (if transfer then date2 e else date1 e),
             set_attrs = (\<lambda>_. attrs deletedVehicle)\<rparr>;
          res = updateWhere (\<lambda>v. vehicle_id v = vehicle_id deletedVehicle) updatedVehicle db1
      in case first (fst res) of
           None \<Rightarrow> (uncaught UndefinedRead, snd res)
         | Some updated \<Rightarrow> ((200, RestoredBody updated), snd res))"

text \<open>
  Lines 169 to 183: the insert of a new row. A refusal of the datastore is thrown by the
  awaited statement and nothing catches it.
\<close>

definition insertNew ::
  "env \<Rightarrow> 'a database \<Rightarrow> user \<Rightarrow> 'a vehicle_insert \<Rightarrow> 'a response \<times> 'a database" where
  "insertNew e db u vehicle =
     (case insertVehicle e vehicle (user_id u) db of
        Inl f \<Rightarrow> (uncaught f, db)
      | Inr res \<Rightarrow>
          (case first (fst res) of
             None \<Rightarrow> (uncaught UndefinedRead, snd res)
           | Some created \<Rightarrow> ((201, CreatedBody created), snd res)))"

definition createVehicle ::
  "env \<Rightarrow> 'a database \<Rightarrow> user option \<Rightarrow> 'a vehicle_insert \<Rightarrow> 'a response \<times> 'a database" where
  "createVehicle e db usr vehicle =
     (case usr of
        None \<Rightarrow> (unauthorized, db)
      | Some u \<Rightarrow>
          (let existing = selectWhere (\<lambda>v. vin v = insert_vin vehicle) db
           in case List.find (\<lambda>v. deletedAt v \<noteq> None) existing of
                Some deletedVehicle \<Rightarrow> reactivate e db u deletedVehicle
              | None \<Rightarrow> insertNew e db u vehicle))"

subsection \<open>GET /vehicles/:vehicleUUID\<close>

definition getVehicle :: "'a database \<Rightarrow> user option \<Rightarrow> string \<Rightarrow> 'a response" where
  "getVehicle db usr vehicleUUID =
     (case usr of
        None \<Rightarrow> unauthorized
      | Some u \<Rightarrow>
          (case first (selectWhere (\<lambda>v. uuid v = vehicleUUID) db) of
             None \<Rightarrow> vehicleNotFound
           | Some vehicle \<Rightarrow>
               if role u \<noteq> ''admin'' \<and> ownerId vehicle \<noteq> user_id u then unauthorized
               else (200, VehicleBody vehicle)))"

subsection \<open>PATCH /vehicles/:vehicleUUID\<close>

text \<open>
  \<^verbatim>\<open>vehicleBody.ownerId && ...\<close>: an absent field and the empty string are both
  falsy.
\<close>

definition truthy :: "string option \<Rightarrow> bool" where
  "truthy s = (case s of None \<Rightarrow> False | Some x \<Rightarrow> x \<noteq> [])"

definition bodyUpdate :: "'a vehicle_body \<Rightarrow> 'a vehicle_update" where
  "bodyUpdate b =
     \<lparr>set_uuid = None, set_vin = body_vin b, set_ownerId = body_ownerId b,
      set_deletedAt = body_deletedAt b, set_createdAt = None, set_updatedAt = None,
      set_attrs = (case body_attrs b of None \<Rightarrow> (\<lambda>a. a) | Some f \<Rightarrow> f)\<rparr>"

text \<open>A body with no field at all, as \<^verbatim>\<open>{}\<close> is.\<close>

definition noValues :: "'a vehicle_body \<Rightarrow> bool" where
  "noValues b =
     (body_vin b = None \<and> body_ownerId b = None \<and> body_deletedAt b = None
      \<and> (case body_attrs b of None \<Rightarrow> True | Some _ \<Rightarrow> False))"

text \<open>
  Lines 330 to 344: the validated body is written to the rows with the UUID.
  \<^verbatim>\<open>.set\<close> throws \<^verbatim>\<open>No values to set\<close> when the body has no field. Modelled
  from the spec: the VIN is unique, so the datastore refuses the update when the body
  sets a VIN that more than one row would then carry.
\<close>

definition applyBody ::
  "'a database \<Rightarrow> string \<Rightarrow> 'a vehicle_body \<Rightarrow> 'a response \<times> 'a database" where
  "applyBody db vehicleUUID vehicleBody =
     (if noValues vehicleBody then (uncaught NoValuesToSet, db)
      else
        (let res = updateWhere (\<lambda>v. uuid v = vehicleUUID) (bodyUpdate vehicleBody) db
         in if (case body_vin vehicleBody of
                  None \<Rightarrow> False
                | Some n \<Rightarrow> 1 < length (filter (\<lambda>r. vin r = n) (vehiclesTable (snd res))))
            then (uncaught UniqueViolation, db)
            else case first (fst res) of
                   None \<Rightarrow> (uncaught UndefinedRead, snd res)
                 | Some updatedVehicle \<Rightarrow> ((200, VehicleBody updatedVehicle), snd res)))"

definition updateVehicle ::
  "env \<Rightarrow> 'a database \<Rightarrow> user option \<Rightarrow> string \<Rightarrow> 'a vehicle_body
     \<Rightarrow> 'a response \<times> 'a database" where
  "updateVehicle e db usr vehicleUUID vehicleBody =
     (case usr of
        None \<Rightarrow> (unauthorized, db)
      | Some u \<Rightarrow>
          (case first (selectWhere (\<lambda>v. uuid v = vehicleUUID) db) of
             None \<Rightarrow> (vehicleNotFound, db)
           | Some vehicle \<Rightarrow>
               if role u \<noteq> ''admin'' \<and> ownerId vehicle \<noteq> user_id u then (unauthorized, db)
               else if truthy (body_ownerId vehicleBody)
                       \<and> body_ownerId vehicleBody \<noteq> Some (ownerId vehicle)
               then
                 (if role u \<noteq> ''admin'' then (forbidden, db)
                  else applyBody
                         (insertOwnershipTransfer
                            \<lparr>vehicleId = None, transfer_vin = Some (vin vehicle),
                             fromUserId = ownerId vehicle,
                             toUserId = (case body_ownerId vehicleBody of
                                           None \<Rightarrow> [] | Some x \<Rightarrow> x),
                             transferredAt = date1 e\<rparr> db)
                         vehicleUUID vehicleBody)
               else applyBody db vehicleUUID vehicleBody))"

subsection \<open>DELETE /vehicles/:vehicleUUID\<close>

text \<open>
  Line 402 is \<^verbatim>\<open>db.update(vehiclesTable).set(softDeleteVehicle)\<close>, with no
  \<^verbatim>\<open>.where\<close>.
\<close>

definition deleteVehicle ::
  "env \<Rightarrow> 'a database \<Rightarrow> user option \<Rightarrow> string \<Rightarrow> 'a response \<times> 'a database" where
  "deleteVehicle e db usr vehicleUUID =
     (case usr of
        None \<Rightarrow> (unauthorized, db)
      | Some u \<Rightarrow>
          (case first (selectWhere (\<lambda>v. uuid v = vehicleUUID) db) of
             None \<Rightarrow> (vehicleNotFound, db)
           | Some vehicle \<Rightarrow>
               if ownerId vehicle \<noteq> user_id u then (unauthorized, db)
               else
                 (let softDeleteVehicle =
                        \<lparr>set_uuid = None, set_vin = None, set_ownerId = None,
                         set_deletedAt = Some (Some (date1 e)), set_createdAt = None,
                         set_updatedAt = None, set_attrs = (\<lambda>a. a)\<rparr>;
                      res = updateWhere (\<lambda>_. True) softDeleteVehicle db
                  in ((200, DeletedBody ''Vehicle soft deleted successfully'' (uuid vehicle)),
                      snd res))))"

subsection \<open>POST /vehicles/:vehicleUUID/restore\<close>

definition restoreVehicle ::
  "env \<Rightarrow> 'a database \<Rightarrow> user option \<Rightarrow> string \<Rightarrow> 'a response \<times> 'a database" where
  "restoreVehicle e db usr vehicleUUID =
     (case usr of
        None \<Rightarrow> (unauthorized, db)
      | Some u \<Rightarrow>
          (case first (selectWhere (\<lambda>v. uuid v = vehicleUUID) db) of
             None \<Rightarrow> (vehicleNotFound, db)
           | Some vehicle \<Rightarrow>
               if ownerId vehicle \<noteq> user_id u then (unauthorized, db)
               else
                 (let restoredVehicleUpdate =
                        \<lparr>set_uuid = None, set_vin = None, set_ownerId = None,
                         set_deletedAt = Some None, set_createdAt = None,
                         set_updatedAt = Some (date1 e), set_attrs = (\<lambda>a. a)\<rparr>;
                      res = updateWhere (\<lambda>v. uuid v = vehicleUUID) restoredVehicleUpdate db
                  in case first (fst res) of
                       None \<Rightarrow> (uncaught UndefinedRead, snd res)
                     | Some restoredVehicle \<Rightarrow>
                         ((200, RestoredBody restoredVehicle), snd res))))"

section \<open>Example data\<close>

text \<open>
  Two ordinary users, an administrator, a caller with a third role, one request
  environment and a small table, used to run the handlers on concrete requests.
\<close>

abbreviation alice :: user where
  "alice \<equiv> \<lparr>user_id = ''alice'', role = ''user''\<rparr>"

abbreviation bob :: user where
  "bob \<equiv> \<lparr>user_id = ''bob'', role = ''user''\<rparr>"

abbreviation root :: user where
  "root \<equiv> \<lparr>user_id = ''root'', role = ''admin''\<rparr>"

abbreviation guest :: user where
  "guest \<equiv> \<lparr>user_id = ''carol'', role = ''guest''\<rparr>"

abbreviation env0 :: env where
  "env0 \<equiv> \<lparr>date1 = 100, date2 = 101, db_now = 102\<rparr>"

abbreviation car :: "int \<Rightarrow> string \<Rightarrow> string \<Rightarrow> string \<Rightarrow> nat option \<Rightarrow> unit vehicle" where
  "car i x n w t \<equiv> \<lparr>vehicle_id = i, uuid = x, vin = n, ownerId = w, deletedAt = t,
      createdAt = 10, updatedAt = 10, attrs = ()\<rparr>"

abbreviation store :: "unit vehicle list \<Rightarrow> unit database" where
  "store rows \<equiv> \<lparr>vehiclesTable = rows, ownershipTransfersTable = []\<rparr>"

section \<open>Properties\<close>

subsection \<open>Selecting the first row\<close>

lemma first_filter: "first (filter P xs) = List.find P xs"
  by (induction xs) (simp_all add: first_def)

lemma first_map: "first (map f xs) = map_option f (first xs)"
  by (cases xs) (simp_all add: first_def)

lemma first_select: "first (selectWhere P db) = List.find P (vehiclesTable db)"
  by (simp add: selectWhere_def first_filter)

lemma find_filter: "List.find P (filter Q xs) = List.find (\<lambda>x. Q x \<and> P x) xs"
  by (induction xs) simp_all

lemma find_SomeD: "List.find P xs = Some x \<Longrightarrow> x \<in> set xs \<and> P x"
  by (induction xs) (auto split: if_splits)

lemma find_map_deleted:
  "List.find (\<lambda>r. uuid r = x) (map (\<lambda>r. r\<lparr>deletedAt := t\<rparr>) xs)
     = map_option (\<lambda>r. r\<lparr>deletedAt := t\<rparr>) (List.find (\<lambda>r. uuid r = x) xs)"
  by (induction xs) simp_all

subsection \<open>Listing\<close>

text \<open>
  The owner filter is applied on \<^verbatim>\<open>user.role === "user"\<close> only. A caller whose role
  is neither \<^verbatim>\<open>user\<close> nor \<^verbatim>\<open>admin\<close> is a non-admin, and is served the vehicles of
  every owner: Carol, with the role \<^verbatim>\<open>guest\<close>, owns nothing and receives Alice's and
  Bob's vehicles.
\<close>

theorem listVehicles_other_role:
  "role guest \<noteq> ''admin''
   \<and> listVehicles (store [car 1 ''u1'' ''WVWZZZ1'' ''alice'' None, car 2 ''u2'' ''VIN2'' ''bob'' None])
        (Some guest)
     = (200, VehiclesBody [car 1 ''u1'' ''WVWZZZ1'' ''alice'' None, car 2 ''u2'' ''VIN2'' ''bob'' None])
   \<and> listVehicles (store [car 1 ''u1'' ''WVWZZZ1'' ''alice'' None, car 2 ''u2'' ''VIN2'' ''bob'' None])
        (Some guest)
     \<noteq> (200, VehiclesBody
          (filter (\<lambda>v. ownerId v = user_id guest \<and> deletedAt v = None)
             (vehiclesTable
                (store [car 1 ''u1'' ''WVWZZZ1'' ''alice'' None, car 2 ''u2'' ''VIN2'' ''bob'' None]))))"
  by (simp add: listVehicles_def selectWhere_def)

text \<open>
  C2, as amended. With no authenticated user the list fails with Unauthorized (401). A
  caller whose role is \<^verbatim>\<open>user\<close> gets exactly the rows that they own and that are not
  soft-deleted; a caller whose role is \<^verbatim>\<open>admin\<close> gets exactly the rows that are not
  soft-deleted, whoever owns them.
\<close>

theorem listVehicles_spec:
  "listVehicles db None = (401, ErrorBody ''Unauthorized'')
   \<and> listVehicles db (Some \<lparr>user_id = i, role = ''user''\<rparr>)
       = (200, VehiclesBody (filter (\<lambda>v. ownerId v = i \<and> deletedAt v = None) (vehiclesTable db)))
   \<and> listVehicles db (Some \<lparr>user_id = i, role = ''admin''\<rparr>)
       = (200, VehiclesBody (filter (\<lambda>v. deletedAt v = None) (vehiclesTable db)))"
  by (simp add: listVehicles_def unauthorized_def selectWhere_def)

subsection \<open>Soft delete and restore\<close>

text \<open>
  What the two handlers do for the owner. The soft delete writes \<^verbatim>\<open>deletedAt\<close> into
  every row of the table; the restore rewrites the rows with the given UUID only.
\<close>

lemma deleteVehicle_by_owner:
  assumes "List.find (\<lambda>r. uuid r = x) (vehiclesTable db) = Some v" and "ownerId v = user_id u"
  shows "deleteVehicle e db (Some u) x =
           ((200, DeletedBody ''Vehicle soft deleted successfully'' (uuid v)),
            db\<lparr>vehiclesTable := map (\<lambda>r. r\<lparr>deletedAt := Some (date1 e)\<rparr>) (vehiclesTable db)\<rparr>)"
  using assms
  by (simp add: deleteVehicle_def first_select updateWhere_def applyUpdate_def)

lemma restoreVehicle_by_owner:
  assumes "List.find (\<lambda>r. uuid r = x) (vehiclesTable db) = Some v" and "ownerId v = user_id u"
  shows "restoreVehicle e db (Some u) x =
           ((200, RestoredBody (v\<lparr>deletedAt := None, updatedAt := date1 e\<rparr>)),
            db\<lparr>vehiclesTable :=
                 map (\<lambda>r. if uuid r = x then r\<lparr>deletedAt := None, updatedAt := date1 e\<rparr> else r)
                     (vehiclesTable db)\<rparr>)"
  using assms
  by (simp add: restoreVehicle_def first_select updateWhere_def applyUpdate_def first_map
        first_filter)

text \<open>
  C1. The claim is that a soft delete by the owner sets \<^verbatim>\<open>deletedAt\<close> on the vehicle
  with the given UUID and leaves every other row unchanged. The handler does not do
  that: Alice deletes her vehicle \<^verbatim>\<open>u1\<close>, and Bob's vehicle \<^verbatim>\<open>u2\<close> is marked deleted
  with it.
\<close>

theorem deleteVehicle_marks_every_row:
  "deleteVehicle env0 (store [car 1 ''u1'' ''WVWZZZ1'' ''alice'' None, car 2 ''u2'' ''VIN2'' ''bob'' None])
      (Some alice) ''u1''
   = ((200, DeletedBody ''Vehicle soft deleted successfully'' ''u1''),
      store [car 1 ''u1'' ''WVWZZZ1'' ''alice'' (Some 100), car 2 ''u2'' ''VIN2'' ''bob'' (Some 100)])"
  by (simp add: deleteVehicle_def first_def selectWhere_def updateWhere_def applyUpdate_def)

text \<open>
  C7. Soft delete and restore look at the owner only, never at the role. When the row
  with the given UUID is \<open>v\<close>, each of them answers 200 if the caller's id is the owner
  of \<open>v\<close> and Unauthorized (401) otherwise, whatever the caller's role; a caller who is
  not the owner, an administrator included, leaves the database as it was.
\<close>

theorem delete_restore_owner_only:
  assumes "List.find (\<lambda>r. uuid r = x) (vehiclesTable db) = Some v"
  shows "fst (deleteVehicle e db (Some u) x)
           = (if ownerId v = user_id u
              then (200, DeletedBody ''Vehicle soft deleted successfully'' (uuid v))
              else (401, ErrorBody ''Unauthorized''))
       \<and> fst (restoreVehicle e db (Some u) x)
           = (if ownerId v = user_id u
              then (200, RestoredBody (v\<lparr>deletedAt := None, updatedAt := date1 e\<rparr>))
              else (401, ErrorBody ''Unauthorized''))
       \<and> (ownerId v = user_id u
           \<or> snd (deleteVehicle e db (Some u) x) = db \<and> snd (restoreVehicle e db (Some u) x) = db)"
proof (cases "ownerId v = user_id u")
  case True
  then show ?thesis
    using assms by (simp add: deleteVehicle_by_owner restoreVehicle_by_owner)
next
  case False
  then show ?thesis
    using assms
    by (simp add: deleteVehicle_def restoreVehicle_def first_select unauthorized_def)
qed

theorem delete_restore_owner_only_witness:
  "List.find (\<lambda>r. uuid r = ''u1'') (vehiclesTable (store [car 1 ''u1'' ''WVWZZZ1'' ''alice'' None]))
     = Some (car 1 ''u1'' ''WVWZZZ1'' ''alice'' None)
   \<and> role root = ''admin''
   \<and> ownerId (car 1 ''u1'' ''WVWZZZ1'' ''alice'' None) \<noteq> user_id root
   \<and> deleteVehicle env0 (store [car 1 ''u1'' ''WVWZZZ1'' ''alice'' None]) (Some root) ''u1''
       = ((401, ErrorBody ''Unauthorized''), store [car 1 ''u1'' ''WVWZZZ1'' ''alice'' None])
   \<and> restoreVehicle env0 (store [car 1 ''u1'' ''WVWZZZ1'' ''alice'' None]) (Some root) ''u1''
       = ((401, ErrorBody ''Unauthorized''), store [car 1 ''u1'' ''WVWZZZ1'' ''alice'' None])"
  using delete_restore_owner_only [of "''u1''" "store [car 1 ''u1'' ''WVWZZZ1'' ''alice'' None]"
      "car 1 ''u1'' ''WVWZZZ1'' ''alice'' None" env0 root]
  by (simp add: prod_eq_iff)

text \<open>
  C8. Round trip. Let \<open>v\<close> be the row with the given UUID and let its owner soft-delete
  it and then restore it. The restore answers 200 with a vehicle whose fields are those
  of \<open>v\<close> before the soft delete, except \<^verbatim>\<open>deletedAt\<close>, which is null, and
  \<^verbatim>\<open>updatedAt\<close>, which is the time of the restore; the table holds that same row
  under the UUID.
\<close>

theorem restore_after_delete:
  assumes "List.find (\<lambda>r. uuid r = x) (vehiclesTable db) = Some v" and "ownerId v = user_id u"
  shows "fst (restoreVehicle e2 (snd (deleteVehicle e1 db (Some u) x)) (Some u) x)
           = (200, RestoredBody (v\<lparr>deletedAt := None, updatedAt := date1 e2\<rparr>))
         \<and> List.find (\<lambda>r. uuid r = x)
              (vehiclesTable (snd (restoreVehicle e2 (snd (deleteVehicle e1 db (Some u) x)) (Some u) x)))
           = Some (v\<lparr>deletedAt := None, updatedAt := date1 e2\<rparr>)"
proof -
  let ?db1 = "db\<lparr>vehiclesTable := map (\<lambda>r. r\<lparr>deletedAt := Some (date1 e1)\<rparr>) (vehiclesTable db)\<rparr>"
  let ?v1 = "v\<lparr>deletedAt := Some (date1 e1)\<rparr>"
  have d: "snd (deleteVehicle e1 db (Some u) x) = ?db1"
    using assms by (simp add: deleteVehicle_by_owner)
  have f1: "List.find (\<lambda>r. uuid r = x) (vehiclesTable ?db1) = Some ?v1"
    using assms(1) by (simp add: find_map_deleted)
  have o1: "ownerId ?v1 = user_id u"
    using assms(2) by simp
  have r: "restoreVehicle e2 ?db1 (Some u) x =
           ((200, RestoredBody (?v1\<lparr>deletedAt := None, updatedAt := date1 e2\<rparr>)),
            ?db1\<lparr>vehiclesTable :=
                 map (\<lambda>r. if uuid r = x then r\<lparr>deletedAt := None, updatedAt := date1 e2\<rparr> else r)
                     (vehiclesTable ?db1)\<rparr>)"
    by (rule restoreVehicle_by_owner [OF f1 o1])
  have g: "List.find (\<lambda>r. uuid r = x)
        (map (\<lambda>r. if uuid r = x then r\<lparr>deletedAt := None, updatedAt := date1 e2\<rparr> else r)
           (map (\<lambda>r. r\<lparr>deletedAt := Some (date1 e1)\<rparr>) xs))
      = Some (v\<lparr>deletedAt := None, updatedAt := date1 e2\<rparr>)"
    if "List.find (\<lambda>r. uuid r = x) xs = Some v" for xs
    using that by (induction xs) (auto split: if_splits)
  show ?thesis
    unfolding d r using g [OF assms(1)] by simp
qed

theorem restore_after_delete_witness:
  "List.find (\<lambda>r. uuid r = ''u1'')
      (vehiclesTable (store [car 1 ''u1'' ''WVWZZZ1'' ''alice'' None, car 2 ''u2'' ''VIN2'' ''bob'' None]))
     = Some (car 1 ''u1'' ''WVWZZZ1'' ''alice'' None)
   \<and> ownerId (car 1 ''u1'' ''WVWZZZ1'' ''alice'' None) = user_id alice
   \<and> fst (restoreVehicle env0
        (snd (deleteVehicle env0
           (store [car 1 ''u1'' ''WVWZZZ1'' ''alice'' None, car 2 ''u2'' ''VIN2'' ''bob'' None])
           (Some alice) ''u1'')) (Some alice) ''u1'')
     = (200, RestoredBody (\<lparr>vehicle_id = 1, uuid = ''u1'', vin = ''WVWZZZ1'', ownerId = ''alice'',
          deletedAt = None, createdAt = 10, updatedAt = 100, attrs = ()\<rparr>))"
  using restore_after_delete [of "''u1''"
      "store [car 1 ''u1'' ''WVWZZZ1'' ''alice'' None, car 2 ''u2'' ''VIN2'' ''bob'' None]"
      "car 1 ''u1'' ''WVWZZZ1'' ''alice'' None" alice env0 env0]
  by simp

subsection \<open>Creating a vehicle\<close>

text \<open>
  The two branches of the handler. The reactivation rewrites every row that has the id
  of the soft-deleted row found, and appends an ownership transfer when the owner
  changes; the insert appends one row when no row carries the VIN and is refused by the
  datastore otherwise.
\<close>

lemma applyUpdate_reactivate:
  "applyUpdate \<lparr>set_uuid = Some (uuid d), set_vin = Some (vin d), set_ownerId = Some w,
      set_deletedAt = Some None, set_createdAt = Some (createdAt d), set_updatedAt = Some t,
      set_attrs = (\<lambda>_. attrs d)\<rparr> r
   = d\<lparr>vehicle_id := vehicle_id r, ownerId := w, deletedAt := None, updatedAt := t\<rparr>"
  by (simp add: applyUpdate_def)

lemma reactivate_result:
  assumes "d \<in> set (vehiclesTable db)"
  shows "reactivate e db u d =
    ((200, RestoredBody (d\<lparr>ownerId := user_id u, deletedAt := None,
              updatedAt := (if ownerId d \<noteq> user_id u then date2 e else date1 e)\<rparr>)),
     db\<lparr>vehiclesTable :=
          map (\<lambda>r. if vehicle_id r = vehicle_id d
                    then d\<lparr>ownerId := user_id u, deletedAt := None,
                           updatedAt := (if ownerId d \<noteq> user_id u then date2 e else date1 e)\<rparr>
                    else r)
              (vehiclesTable db),
        ownershipTransfersTable :=
          (if ownerId d \<noteq> user_id u
           then ownershipTransfersTable db @
                [\<lparr>vehicleId = Some (vehicle_id d), transfer_vin = None, fromUserId = ownerId d,
                  toUserId = user_id u, transferredAt = date1 e\<rparr>]
           else ownershipTransfersTable db)\<rparr>)"
proof -
  from assms have "List.find (\<lambda>v. vehicle_id v = vehicle_id d) (vehiclesTable db) \<noteq> None"
    by (auto simp: find_None_iff)
  then obtain r where r: "List.find (\<lambda>v. vehicle_id v = vehicle_id d) (vehiclesTable db) = Some r"
    by blast
  then have rid: "vehicle_id r = vehicle_id d"
    by (auto dest: find_SomeD)
  show ?thesis
    using r rid
    by (cases "ownerId d \<noteq> user_id u")
       (simp_all add: reactivate_def Let_def updateWhere_def insertOwnershipTransfer_def
          first_map first_filter applyUpdate_reactivate cong: map_cong)
qed

text \<open>
  The values the database gives a new row are carried by no row of the table: the UUID
  is longer than every UUID in it, the id larger than every id in it.
\<close>

lemma uuid_length_bound:
  "r \<in> set rows \<Longrightarrow> length (uuid r) \<le> foldr (\<lambda>r n. max (length (uuid r)) n) rows 0"
  by (induction rows) auto

lemma defaultRandom_fresh: "defaultRandom rows \<notin> uuid ` set rows"
proof
  assume "defaultRandom rows \<in> uuid ` set rows"
  then obtain r where r: "r \<in> set rows" and eq: "uuid r = defaultRandom rows"
    by auto
  have "length (defaultRandom rows) = Suc (foldr (\<lambda>r n. max (length (uuid r)) n) rows 0)"
    by (simp add: defaultRandom_def)
  with uuid_length_bound [OF r] eq show False
    by simp
qed

lemma vehicle_id_bound:
  "r \<in> set rows \<Longrightarrow> vehicle_id r \<le> foldr (\<lambda>r n. max (vehicle_id r) n) rows 0"
  by (induction rows) auto

lemma generatedAlwaysAsIdentity_fresh: "generatedAlwaysAsIdentity rows \<notin> vehicle_id ` set rows"
proof
  assume "generatedAlwaysAsIdentity rows \<in> vehicle_id ` set rows"
  then obtain r where r: "r \<in> set rows" and eq: "vehicle_id r = generatedAlwaysAsIdentity rows"
    by auto
  with vehicle_id_bound [OF r] show False
    by (simp add: generatedAlwaysAsIdentity_def)
qed

lemma insertNew_free:
  assumes "insert_vin p \<notin> vin ` set (vehiclesTable db)"
  shows "insertNew e db u p =
     ((201, CreatedBody \<lparr>vehicle_id = generatedAlwaysAsIdentity (vehiclesTable db),
               uuid = defaultRandom (vehiclesTable db), vin = insert_vin p,
               ownerId = user_id u, deletedAt = None, createdAt = db_now e,
               updatedAt = db_now e, attrs = insert_attrs p\<rparr>),
      db\<lparr>vehiclesTable := vehiclesTable db @
           [\<lparr>vehicle_id = generatedAlwaysAsIdentity (vehiclesTable db),
             uuid = defaultRandom (vehiclesTable db), vin = insert_vin p,
             ownerId = user_id u, deletedAt = None, createdAt = db_now e,
             updatedAt = db_now e, attrs = insert_attrs p\<rparr>]\<rparr>)"
  using assms by (simp add: insertNew_def insertVehicle_def first_def Let_def)


lemma createVehicle_found:
  assumes "List.find (\<lambda>v. vin v = insert_vin p \<and> deletedAt v \<noteq> None) (vehiclesTable db) = Some d"
  shows "createVehicle e db (Some u) p = reactivate e db u d"
  using assms by (simp add: createVehicle_def selectWhere_def find_filter)

lemma createVehicle_not_found:
  assumes "List.find (\<lambda>v. vin v = insert_vin p \<and> deletedAt v \<noteq> None) (vehiclesTable db) = None"
  shows "createVehicle e db (Some u) p = insertNew e db u p"
  using assms by (simp add: createVehicle_def selectWhere_def find_filter)

text \<open>
  C3. When some soft-deleted row has the VIN of the payload, the handler takes the first
  such row \<open>d\<close>, answers 200 with the vehicle tagged restored, and that vehicle is \<open>d\<close>
  with \<^verbatim>\<open>deletedAt\<close> cleared, the requester as owner and a new \<^verbatim>\<open>updatedAt\<close>; in the
  table the row with the id of \<open>d\<close> is rewritten to it and no other row changes.
\<close>

theorem createVehicle_restores_deleted:
  assumes "r \<in> set (vehiclesTable db)" and "vin r = insert_vin p" and "deletedAt r \<noteq> None"
  shows "\<exists>d. List.find (\<lambda>v. vin v = insert_vin p \<and> deletedAt v \<noteq> None) (vehiclesTable db) = Some d
     \<and> fst (createVehicle e db (Some u) p)
         = (200, RestoredBody (d\<lparr>ownerId := user_id u, deletedAt := None,
                updatedAt := (if ownerId d \<noteq> user_id u then date2 e else date1 e)\<rparr>))
     \<and> vehiclesTable (snd (createVehicle e db (Some u) p))
         = map (\<lambda>r. if vehicle_id r = vehicle_id d
                     then d\<lparr>ownerId := user_id u, deletedAt := None,
                            updatedAt := (if ownerId d \<noteq> user_id u then date2 e else date1 e)\<rparr>
                     else r)
               (vehiclesTable db)"
proof -
  from assms have "List.find (\<lambda>v. vin v = insert_vin p \<and> deletedAt v \<noteq> None) (vehiclesTable db) \<noteq> None"
    by (auto simp: find_None_iff)
  then obtain d where
    d: "List.find (\<lambda>v. vin v = insert_vin p \<and> deletedAt v \<noteq> None) (vehiclesTable db) = Some d"
    by blast
  then have mem: "d \<in> set (vehiclesTable db)"
    by (auto dest: find_SomeD)
  show ?thesis
    using d createVehicle_found [OF d, of e u] reactivate_result [OF mem, of e u] by simp
qed

theorem createVehicle_restores_deleted_witness:
  "car 1 ''u1'' ''WVWZZZ1'' ''alice'' (Some 50) \<in> set (vehiclesTable (store [car 1 ''u1'' ''WVWZZZ1'' ''alice'' (Some 50)]))
   \<and> vin (car 1 ''u1'' ''WVWZZZ1'' ''alice'' (Some 50)) = insert_vin \<lparr>insert_vin = ''WVWZZZ1'', insert_attrs = ()\<rparr>
   \<and> deletedAt (car 1 ''u1'' ''WVWZZZ1'' ''alice'' (Some 50)) \<noteq> None
   \<and> fst (createVehicle env0 (store [car 1 ''u1'' ''WVWZZZ1'' ''alice'' (Some 50)]) (Some bob)
            \<lparr>insert_vin = ''WVWZZZ1'', insert_attrs = ()\<rparr>)
       = (200, RestoredBody \<lparr>vehicle_id = 1, uuid = ''u1'', vin = ''WVWZZZ1'', ownerId = ''bob'',
            deletedAt = None, createdAt = 10, updatedAt = 101, attrs = ()\<rparr>)
   \<and> vehiclesTable (snd (createVehicle env0 (store [car 1 ''u1'' ''WVWZZZ1'' ''alice'' (Some 50)]) (Some bob)
            \<lparr>insert_vin = ''WVWZZZ1'', insert_attrs = ()\<rparr>))
       = [\<lparr>vehicle_id = 1, uuid = ''u1'', vin = ''WVWZZZ1'', ownerId = ''bob'',
            deletedAt = None, createdAt = 10, updatedAt = 101, attrs = ()\<rparr>]"
  using createVehicle_restores_deleted [of "car 1 ''u1'' ''WVWZZZ1'' ''alice'' (Some 50)"
      "store [car 1 ''u1'' ''WVWZZZ1'' ''alice'' (Some 50)]"
      "\<lparr>insert_vin = ''WVWZZZ1'', insert_attrs = ()\<rparr>" env0 bob]
  by simp

text \<open>
  C4. In the reactivation branch, with \<open>d\<close> the soft-deleted row found: when the owner
  of \<open>d\<close> is not the requester, exactly one ownership transfer is appended, from the
  owner of \<open>d\<close> to the requester; when the owner of \<open>d\<close> is the requester, the
  transfers are left as they were.
\<close>

theorem createVehicle_transfer_record:
  assumes "List.find (\<lambda>v. vin v = insert_vin p \<and> deletedAt v \<noteq> None) (vehiclesTable db) = Some d"
  shows "ownershipTransfersTable (snd (createVehicle e db (Some u) p))
     = (if ownerId d \<noteq> user_id u
        then ownershipTransfersTable db @
             [\<lparr>vehicleId = Some (vehicle_id d), transfer_vin = None, fromUserId = ownerId d,
               toUserId = user_id u, transferredAt = date1 e\<rparr>]
        else ownershipTransfersTable db)"
proof -
  from assms have mem: "d \<in> set (vehiclesTable db)"
    by (auto dest: find_SomeD)
  show ?thesis
    using createVehicle_found [OF assms, of e u] reactivate_result [OF mem, of e u] by simp
qed

theorem createVehicle_transfer_record_witness:
  "List.find (\<lambda>v. vin v = insert_vin \<lparr>insert_vin = ''WVWZZZ1'', insert_attrs = ()\<rparr> \<and> deletedAt v \<noteq> None)
      (vehiclesTable (store [car 1 ''u1'' ''WVWZZZ1'' ''alice'' (Some 50)]))
     = Some (car 1 ''u1'' ''WVWZZZ1'' ''alice'' (Some 50))
   \<and> ownershipTransfersTable (snd (createVehicle env0 (store [car 1 ''u1'' ''WVWZZZ1'' ''alice'' (Some 50)])
          (Some bob) \<lparr>insert_vin = ''WVWZZZ1'', insert_attrs = ()\<rparr>))
       = [\<lparr>vehicleId = Some 1, transfer_vin = None, fromUserId = ''alice'', toUserId = ''bob'',
           transferredAt = 100\<rparr>]
   \<and> ownershipTransfersTable (snd (createVehicle env0 (store [car 1 ''u1'' ''WVWZZZ1'' ''alice'' (Some 50)])
          (Some alice) \<lparr>insert_vin = ''WVWZZZ1'', insert_attrs = ()\<rparr>))
       = []"
  using createVehicle_transfer_record [of "\<lparr>insert_vin = ''WVWZZZ1'', insert_attrs = ()\<rparr>"
      "store [car 1 ''u1'' ''WVWZZZ1'' ''alice'' (Some 50)]"
      "car 1 ''u1'' ''WVWZZZ1'' ''alice'' (Some 50)" env0 bob]
    createVehicle_transfer_record [of "\<lparr>insert_vin = ''WVWZZZ1'', insert_attrs = ()\<rparr>"
      "store [car 1 ''u1'' ''WVWZZZ1'' ''alice'' (Some 50)]"
      "car 1 ''u1'' ''WVWZZZ1'' ''alice'' (Some 50)" env0 alice]
  by simp

text \<open>
  C5. When no row of the table, active or soft-deleted, has the VIN of the payload, the
  handler appends one new row and answers 201 with that row tagged created. The row is
  owned by the caller, carries the payload's VIN, is not soft-deleted, and its UUID and
  its id are fresh: no row of the table had them.
\<close>

theorem createVehicle_new_vin:
  assumes "insert_vin p \<notin> vin ` set (vehiclesTable db)"
  shows "\<exists>row. createVehicle e db (Some u) p
                 = ((201, CreatedBody row), db\<lparr>vehiclesTable := vehiclesTable db @ [row]\<rparr>)
           \<and> ownerId row = user_id u \<and> vin row = insert_vin p \<and> deletedAt row = None
           \<and> uuid row \<notin> uuid ` set (vehiclesTable db)
           \<and> vehicle_id row \<notin> vehicle_id ` set (vehiclesTable db)"
proof -
  have "List.find (\<lambda>v. vin v = insert_vin p \<and> deletedAt v \<noteq> None) (vehiclesTable db) = None"
    using assms by (force simp: find_None_iff)
  then have "createVehicle e db (Some u) p = insertNew e db u p"
    by (rule createVehicle_not_found)
  then show ?thesis
    using insertNew_free [OF assms, of e u]
      defaultRandom_fresh [of "vehiclesTable db"]
      generatedAlwaysAsIdentity_fresh [of "vehiclesTable db"]
    by simp
qed

theorem createVehicle_new_vin_witness:
  "insert_vin \<lparr>insert_vin = ''VIN9'', insert_attrs = ()\<rparr>
      \<notin> vin ` set (vehiclesTable (store [car 1 ''u1'' ''WVWZZZ1'' ''alice'' None]))
   \<and> createVehicle env0 (store [car 1 ''u1'' ''WVWZZZ1'' ''alice'' None]) (Some bob)
        \<lparr>insert_vin = ''VIN9'', insert_attrs = ()\<rparr>
     = ((201, CreatedBody \<lparr>vehicle_id = 2, uuid = ''000'', vin = ''VIN9'', ownerId = ''bob'',
              deletedAt = None, createdAt = 102, updatedAt = 102, attrs = ()\<rparr>),
        store [car 1 ''u1'' ''WVWZZZ1'' ''alice'' None,
               \<lparr>vehicle_id = 2, uuid = ''000'', vin = ''VIN9'', ownerId = ''bob'',
                deletedAt = None, createdAt = 102, updatedAt = 102, attrs = ()\<rparr>])"
  using createVehicle_new_vin [of "\<lparr>insert_vin = ''VIN9'', insert_attrs = ()\<rparr>"
      "store [car 1 ''u1'' ''WVWZZZ1'' ''alice'' None]" env0 bob]
  by (simp add: createVehicle_def selectWhere_def insertNew_free defaultRandom_def
        generatedAlwaysAsIdentity_def)



subsection \<open>Fetching one vehicle\<close>

text \<open>
  C10. The fetch by UUID does not look at \<^verbatim>\<open>deletedAt\<close>. When the row with the given
  UUID is soft-deleted and the caller is its owner or an administrator, the answer is
  200 with that row, \<^verbatim>\<open>deletedAt\<close> included. For an authenticated caller the answer
  is 404 exactly when no row of the table has the UUID.
\<close>

theorem getVehicle_ignores_deletedAt:
  "(List.find (\<lambda>r. uuid r = x) (vehiclesTable db) = Some v \<and> deletedAt v = Some t
      \<and> (role u = ''admin'' \<or> ownerId v = user_id u)
     \<longrightarrow> getVehicle db (Some u) x = (200, VehicleBody v))
   \<and> (fst (getVehicle db (Some u) x) = 404) = (x \<notin> uuid ` set (vehiclesTable db))"
proof -
  have "(List.find (\<lambda>r. uuid r = x) (vehiclesTable db) = None) = (x \<notin> uuid ` set (vehiclesTable db))"
    by (auto simp: find_None_iff)
  then show ?thesis
    by (auto simp: getVehicle_def first_select vehicleNotFound_def unauthorized_def
          split: option.splits)
qed

theorem getVehicle_ignores_deletedAt_witness:
  "List.find (\<lambda>r. uuid r = ''u1'')
      (vehiclesTable (store [car 1 ''u1'' ''WVWZZZ1'' ''alice'' (Some 50)]))
     = Some (car 1 ''u1'' ''WVWZZZ1'' ''alice'' (Some 50))
   \<and> deletedAt (car 1 ''u1'' ''WVWZZZ1'' ''alice'' (Some 50)) = Some 50
   \<and> ownerId (car 1 ''u1'' ''WVWZZZ1'' ''alice'' (Some 50)) = user_id alice
   \<and> role root = ''admin''
   \<and> getVehicle (store [car 1 ''u1'' ''WVWZZZ1'' ''alice'' (Some 50)]) (Some alice) ''u1''
       = (200, VehicleBody (car 1 ''u1'' ''WVWZZZ1'' ''alice'' (Some 50)))
   \<and> getVehicle (store [car 1 ''u1'' ''WVWZZZ1'' ''alice'' (Some 50)]) (Some root) ''u1''
       = (200, VehicleBody (car 1 ''u1'' ''WVWZZZ1'' ''alice'' (Some 50)))
   \<and> ''u7'' \<notin> uuid ` set (vehiclesTable (store [car 1 ''u1'' ''WVWZZZ1'' ''alice'' (Some 50)]))
   \<and> fst (getVehicle (store [car 1 ''u1'' ''WVWZZZ1'' ''alice'' (Some 50)]) (Some alice) ''u7'') = 404"
  using getVehicle_ignores_deletedAt [of "''u1''" "store [car 1 ''u1'' ''WVWZZZ1'' ''alice'' (Some 50)]"
      "car 1 ''u1'' ''WVWZZZ1'' ''alice'' (Some 50)" 50 alice]
    getVehicle_ignores_deletedAt [of "''u1''" "store [car 1 ''u1'' ''WVWZZZ1'' ''alice'' (Some 50)]"
      "car 1 ''u1'' ''WVWZZZ1'' ''alice'' (Some 50)" 50 root]
    getVehicle_ignores_deletedAt [of "''u7''" "store [car 1 ''u1'' ''WVWZZZ1'' ''alice'' (Some 50)]"
      "car 1 ''u1'' ''WVWZZZ1'' ''alice'' (Some 50)" 50 alice]
  by simp

subsection \<open>Updating a vehicle\<close>

text \<open>
  A caller who is neither the owner nor an administrator is turned away with
  Unauthorized (401) before the payload is looked at: Bob, a non-admin, asks to become
  the owner of Alice's vehicle and receives 401, not 403.
\<close>

theorem updateVehicle_non_owner_unauthorized:
  "fst (updateVehicle env0 (store [car 1 ''u1'' ''WVWZZZ1'' ''alice'' None]) (Some bob) ''u1''
          \<lparr>body_vin = None, body_ownerId = Some ''bob'', body_deletedAt = None,
           body_attrs = None\<rparr>)
     = (401, ErrorBody ''Unauthorized'')
   \<and> fst (updateVehicle env0 (store [car 1 ''u1'' ''WVWZZZ1'' ''alice'' None]) (Some bob) ''u1''
          \<lparr>body_vin = None, body_ownerId = Some ''bob'', body_deletedAt = None,
           body_attrs = None\<rparr>)
     \<noteq> (403, ErrorBody ''Only admins can transfer ownership'')"
  by (simp add: updateVehicle_def first_def selectWhere_def unauthorized_def)

text \<open>
  The test of line 305 reads the payload's \<^verbatim>\<open>ownerId\<close> for truthiness, so an empty
  string passes it by: Alice, a non-admin owner, sends the empty string, the handler
  does not answer 403 and goes on to the update with that body, recording no transfer.
\<close>

lemma updateVehicle_empty_ownerId:
  "updateVehicle env0 (store [car 1 ''u1'' ''WVWZZZ1'' ''alice'' None]) (Some alice) ''u1''
          \<lparr>body_vin = None, body_ownerId = Some [], body_deletedAt = None, body_attrs = None\<rparr>
     = applyBody (store [car 1 ''u1'' ''WVWZZZ1'' ''alice'' None]) ''u1''
          \<lparr>body_vin = None, body_ownerId = Some [], body_deletedAt = None, body_attrs = None\<rparr>
   \<and> fst (updateVehicle env0 (store [car 1 ''u1'' ''WVWZZZ1'' ''alice'' None]) (Some alice) ''u1''
          \<lparr>body_vin = None, body_ownerId = Some [], body_deletedAt = None, body_attrs = None\<rparr>)
     \<noteq> (403, ErrorBody ''Only admins can transfer ownership'')"
  by (simp add: updateVehicle_def first_def selectWhere_def truthy_def applyBody_def
        updateWhere_def bodyUpdate_def applyUpdate_def noValues_def)

text \<open>
  A body with no field never reaches the datastore: \<^verbatim>\<open>.set\<close> throws and the request
  fails with the table as it was.
\<close>

lemma updateVehicle_no_values:
  "updateVehicle env0 (store [car 1 ''u1'' ''WVWZZZ1'' ''alice'' None]) (Some alice) ''u1''
          \<lparr>body_vin = None, body_ownerId = None, body_deletedAt = None, body_attrs = None\<rparr>
     = ((500, FailureBody NoValuesToSet), store [car 1 ''u1'' ''WVWZZZ1'' ''alice'' None])"
  by (simp add: updateVehicle_def first_def selectWhere_def truthy_def applyBody_def
        noValues_def uncaught_def)

text \<open>
  C6, as amended. A non-admin caller who owns the vehicle with the given UUID and whose
  payload sets \<^verbatim>\<open>ownerId\<close> to a non-empty value other than the current owner receives
  Forbidden (403), and the database is left as it was: no ownership transfer is
  recorded and no vehicle row changes.
\<close>

theorem updateVehicle_owner_transfer_forbidden:
  assumes "List.find (\<lambda>r. uuid r = x) (vehiclesTable db) = Some v"
      and "ownerId v = user_id u" and "role u \<noteq> ''admin''"
      and "body_ownerId b = Some w" and "w \<noteq> []" and "w \<noteq> ownerId v"
  shows "updateVehicle e db (Some u) x b
           = ((403, ErrorBody ''Only admins can transfer ownership''), db)"
  using assms
  by (simp add: updateVehicle_def first_select truthy_def forbidden_def)

theorem updateVehicle_owner_transfer_forbidden_witness:
  "List.find (\<lambda>r. uuid r = ''u1'') (vehiclesTable (store [car 1 ''u1'' ''WVWZZZ1'' ''alice'' None]))
     = Some (car 1 ''u1'' ''WVWZZZ1'' ''alice'' None)
   \<and> ownerId (car 1 ''u1'' ''WVWZZZ1'' ''alice'' None) = user_id alice
   \<and> role alice \<noteq> ''admin''
   \<and> ''bob'' \<noteq> [] \<and> ''bob'' \<noteq> ownerId (car 1 ''u1'' ''WVWZZZ1'' ''alice'' None)
   \<and> updateVehicle env0 (store [car 1 ''u1'' ''WVWZZZ1'' ''alice'' None]) (Some alice) ''u1''
        \<lparr>body_vin = None, body_ownerId = Some ''bob'', body_deletedAt = None,
         body_attrs = None\<rparr>
     = ((403, ErrorBody ''Only admins can transfer ownership''),
        store [car 1 ''u1'' ''WVWZZZ1'' ''alice'' None])"
  using updateVehicle_owner_transfer_forbidden [of "''u1''"
      "store [car 1 ''u1'' ''WVWZZZ1'' ''alice'' None]" "car 1 ''u1'' ''WVWZZZ1'' ''alice'' None"
      alice "\<lparr>body_vin = None, body_ownerId = Some ''bob'', body_deletedAt = None,
         body_attrs = None\<rparr>" "''bob''" env0]
  by simp

end
